theory Spec2Isabelle
  imports Main
begin

section \<open>Values, descriptors and subjects\<close>

text \<open>
  The descriptor engine of the module lives in the class mixin \<^verbatim>\<open>MonarchApplicationMixin\<close>
  (\<^verbatim>\<open>applyCardControls\<close>, \<^verbatim>\<open>applyCardControl\<close>, \<^verbatim>\<open>applyCardBadges\<close>, \<^verbatim>\<open>controlReducer\<close>,
  \<^verbatim>\<open>getData\<close>) and in the descriptor catalogue \<^verbatim>\<open>Components.js\<close>.

  JavaScript is dynamically typed, so the value of a descriptor field after resolution is
  a \<open>jsval\<close>: \<^verbatim>\<open>undefined\<close>, a boolean, a number or a string. Numbers are the integers
  (the card values and face indices the descriptors read).
\<close>

datatype jsval = JUndefined | JBool bool | JNum int | JStr string

text \<open>JavaScript truthiness, as \<^verbatim>\<open>!x\<close> and \<^verbatim>\<open>x && y\<close> test it.\<close>

fun truthy :: "jsval \<Rightarrow> bool" where
  "truthy JUndefined = False"
| "truthy (JBool b) = b"
| "truthy (JNum n) = (n \<noteq> 0)"
| "truthy (JStr s) = (s \<noteq> [])"

definition js_not :: "jsval \<Rightarrow> jsval" where
  "js_not v = JBool (\<not> truthy v)"

text \<open>
  A descriptor field is a plain value or a function of the subject. A JavaScript function
  may write to the object it is given, so a callable takes the subject and returns its
  value together with the subject as the call leaves it. An absent field reads as
  \<^verbatim>\<open>undefined\<close>: \<open>Plain JUndefined\<close>.
\<close>

datatype 's field = Plain jsval | Callable "'s \<Rightarrow> jsval \<times> 's"

text \<open>
  \<^verbatim>\<open>CardControl\<close>: every property is optional. \<open>class_c\<close> is the property \<^verbatim>\<open>class\<close>,
  \<open>onclick\<close> is a handler of some type \<open>'h\<close>, \<open>controls\<close> the array of a group.
\<close>

datatype ('s, 'h) control =
  Control (tooltip: "'s field") (aria: "'s field") (icon: "'s field")
    (class_c: "string option") (disabled: "'s field") (onclick: "'h option")
    (controls: "('s, 'h) control list option")

text \<open>The object \<^verbatim>\<open>applyCardControl\<close> returns.\<close>

datatype resolved_control =
  ResolvedControl (tooltip_r: jsval) (aria_r: jsval) (icon_r: jsval)
    (class_r: string) (disabled_r: jsval) (controls_r: "resolved_control list")

text \<open>\<^verbatim>\<open>CardBadge\<close>, and the object \<^verbatim>\<open>applyCardBadges\<close> makes of each.\<close>

record 's badge =
  tooltip_b :: "'s field"
  text_b :: "'s field"
  class_b :: "string option"
  hide_b :: "'s field"

record resolved_badge =
  tooltip_rb :: jsval
  text_rb :: jsval
  hide_rb :: jsval
  class_rb :: string

section \<open>The attribute resolver\<close>

text \<open>
  Modelled from the spec: \<^verbatim>\<open>utils.functionOrString\<close>, of the module \<^verbatim>\<open>utils.js\<close>, which the
  mixin imports and calls. Its contract is \<^verbatim>\<open>resolve(attrOrFn, defaultValue) -> (subject) -> value\<close>:
  an absent or undefined field gives the constant function of the default, a plain value
  the constant function of that value, and a callable is returned as it is. A constant
  function leaves the subject as it was.
\<close>

fun functionOrString :: "'s field \<Rightarrow> jsval \<Rightarrow> 's \<Rightarrow> jsval \<times> 's" where
  "functionOrString (Callable f) defaultValue = f"
| "functionOrString (Plain v) defaultValue =
     (if v = JUndefined then (\<lambda>subject. (defaultValue, subject))
      else (\<lambda>subject. (v, subject)))"

section \<open>The descriptor applier\<close>

text \<open>\<^verbatim>\<open>control.class ?? ""\<close>\<close>

fun class_or_empty :: "string option \<Rightarrow> string" where
  "class_or_empty None = []"
| "class_or_empty (Some c) = c"

text \<open>
  \<^verbatim>\<open>applyCardControls\<close> maps \<^verbatim>\<open>applyCardControl\<close> over the array, left to right;
  \<^verbatim>\<open>applyCardControl\<close> evaluates the properties of the object literal in the order they are
  written: tooltip, aria, icon, class, disabled, controls. The subject is threaded
  through the calls in that order (\<open>card0\<close> is the parameter \<^verbatim>\<open>card\<close>, \<open>card1\<close> the
  subject after the first call, and so on).
\<close>

fun applyCardControls :: "'s \<Rightarrow> ('s, 'h) control list \<Rightarrow> resolved_control list \<times> 's"
  and applyCardControl :: "'s \<Rightarrow> ('s, 'h) control \<Rightarrow> resolved_control \<times> 's" where
  "applyCardControls card0 [] = ([], card0)"
| "applyCardControls card0 (control # rest) =
     (case applyCardControl card0 control of (r, card1) \<Rightarrow>
      case applyCardControls card1 rest of (rs, card2) \<Rightarrow> (r # rs, card2))"
| "applyCardControl card0 (Control tt ar ic cl di oc cs) =
     (case functionOrString tt (JStr []) card0 of (t, card1) \<Rightarrow>
      case functionOrString ar (JStr []) card1 of (a, card2) \<Rightarrow>
      case functionOrString ic (JStr []) card2 of (i, card3) \<Rightarrow>
      case functionOrString di (JBool False) card3 of (d, card4) \<Rightarrow>
      case (case cs of None \<Rightarrow> ([], card4) | Some l \<Rightarrow> applyCardControls card4 l)
        of (k, card5) \<Rightarrow>
          (ResolvedControl t a i (class_or_empty cl) d k, card5))"

text \<open>The arrow function \<^verbatim>\<open>applyCardBadges\<close> maps over the badges, and the map.\<close>

definition applyCardBadge :: "'s \<Rightarrow> 's badge \<Rightarrow> resolved_badge \<times> 's" where
  "applyCardBadge card0 badge =
     (case functionOrString (tooltip_b badge) (JStr []) card0 of (t, card1) \<Rightarrow>
      case functionOrString (text_b badge) (JStr []) card1 of (x, card2) \<Rightarrow>
      case functionOrString (hide_b badge) (JBool False) card2 of (h, card3) \<Rightarrow>
        (\<lparr>tooltip_rb = t, text_rb = x, hide_rb = h,
          class_rb = class_or_empty (class_b badge)\<rparr>, card3))"

fun applyCardBadges :: "'s \<Rightarrow> 's badge list \<Rightarrow> resolved_badge list \<times> 's" where
  "applyCardBadges card0 [] = ([], card0)"
| "applyCardBadges card0 (badge # rest) =
     (case applyCardBadge card0 badge of (r, card1) \<Rightarrow>
      case applyCardBadges card1 rest of (rs, card2) \<Rightarrow> (r # rs, card2))"

section \<open>The control flattener\<close>

text \<open>
  \<^verbatim>\<open>controlReducer(controls, control)\<close> pushes onto the one accumulator array and hands it
  to the \<^verbatim>\<open>reduce\<close> over the children; the accumulator is passed and returned here.
  \<^verbatim>\<open>control.onclick && control.class\<close> holds when the handler is there and the class is a
  non-empty string; \<^verbatim>\<open>if (control.controls)\<close> holds for every array, the empty one too.
\<close>

fun controlReducer :: "(string \<times> 'h) list \<Rightarrow> ('s, 'h) control \<Rightarrow> (string \<times> 'h) list" where
  "controlReducer acc (Control tt ar ic cl di oc cs) =
     (let acc1 = (case (oc, cl) of
                    (Some h, Some c) \<Rightarrow> if c \<noteq> [] then acc @ [(c, h)] else acc
                  | _ \<Rightarrow> acc)
      in case cs of None \<Rightarrow> acc1 | Some l \<Rightarrow> foldl controlReducer acc1 l)"

text \<open>\<^verbatim>\<open>Object.fromEntries\<close>: the entries are stored in order, a later key overwriting.\<close>

definition fromEntries :: "(string \<times> 'h) list \<Rightarrow> (string \<rightharpoonup> 'h)" where
  "fromEntries es = foldl (\<lambda>m (k, v). m(k \<mapsto> v)) Map.empty es"

text \<open>\<^verbatim>\<open>this._controlFns\<close>, as \<^verbatim>\<open>getData\<close> computes it from the final control list.\<close>

definition controlFns :: "('s, 'h) control list \<Rightarrow> (string \<rightharpoonup> 'h)" where
  "controlFns cs = fromEntries (foldl controlReducer [] cs)"

section \<open>The subject and the default descriptors\<close>

text \<open>
  The properties of a card that the default descriptors read: \<^verbatim>\<open>card.name\<close>,
  \<^verbatim>\<open>card.hasNextFace\<close>, \<^verbatim>\<open>card.hasPreviousFace\<close> and, under \<^verbatim>\<open>card.data\<close>, \<^verbatim>\<open>suit\<close>,
  \<^verbatim>\<open>value\<close>, \<^verbatim>\<open>type\<close> (\<open>value_d\<close> and \<open>type_d\<close> here) and \<^verbatim>\<open>face\<close>, a number or
  \<^verbatim>\<open>null\<close> (\<open>None\<close>).
\<close>

record card_data =
  suit :: jsval
  value_d :: jsval
  type_d :: jsval
  face :: "int option"

record card =
  name :: jsval
  hasNextFace :: jsval
  hasPreviousFace :: jsval
  data :: card_data

text \<open>
  What a default click handler does: it calls \<^verbatim>\<open>card.update({ face: v })\<close>. A handler
  \<^verbatim>\<open>(event, card) => ...\<close> is a function of the event and the card to that call.
\<close>

datatype card_call = Update_face "int option"

type_synonym 'e handler = "'e \<Rightarrow> card \<Rightarrow> card_call"

abbreviation absent :: "'s field" where
  "absent \<equiv> Plain JUndefined"

text \<open>
  The getters \<^verbatim>\<open>controls\<close> and \<^verbatim>\<open>badges\<close> of the mixin. The arguments of \<open>Control\<close> are
  tooltip, aria, icon, class, disabled, onclick, controls. In \<^verbatim>\<open>card.data.face - 1\<close> a
  \<^verbatim>\<open>null\<close> face counts as 0.
\<close>

definition mixin_controls :: "(card, 'e handler) control list" where
  "mixin_controls =
     [Control absent absent absent (Some ''card-faces'') absent None
        (Some
          [Control (Plain (JStr ''CARD.FaceNext'')) absent (Plain (JStr ''fas fa-caret-up''))
             (Some ''next-face'')
             (Callable (\<lambda>card. (js_not (hasNextFace card), card)))
             (Some (\<lambda>event card. Update_face
                (case face (data card) of None \<Rightarrow> Some 0 | Some n \<Rightarrow> Some (n + 1))))
             None,
           Control (Plain (JStr ''CARD.FacePrevious'')) absent
             (Plain (JStr ''fas fa-caret-down''))
             (Some ''prev-face'')
             (Callable (\<lambda>card. (js_not (hasPreviousFace card), card)))
             (Some (\<lambda>event card. Update_face
                (case face (data card) of None \<Rightarrow> Some (- 1)
                 | Some n \<Rightarrow> if n = 0 then None else Some (n - 1))))
             None])]"

definition mixin_badges :: "card badge list" where
  "mixin_badges =
     [\<lparr>tooltip_b = Plain (JStr ''CARD.Suit''),
       text_b = Callable (\<lambda>card. (suit (data card), card)),
       class_b = Some ''card-suit'', hide_b = absent\<rparr>,
      \<lparr>tooltip_b = Plain (JStr ''CARD.Value''),
       text_b = Callable (\<lambda>card. (value_d (data card), card)),
       class_b = Some ''card-value'', hide_b = absent\<rparr>,
      \<lparr>tooltip_b = Plain (JStr ''CARD.Type''),
       text_b = Callable (\<lambda>card. (type_d (data card), card)),
       class_b = Some ''card-type'', hide_b = absent\<rparr>]"

text \<open>The catalogue of \<^verbatim>\<open>Components.js\<close>: the static getters of \<^verbatim>\<open>Controls\<close> and \<^verbatim>\<open>Badges\<close>.\<close>

definition Controls_faceNext :: "(card, 'e handler) control" where
  "Controls_faceNext =
     Control (Plain (JStr ''CARD.FaceNext'')) absent (Plain (JStr ''fas fa-caret-up''))
       (Some ''next-face'')
       (Callable (\<lambda>card. (js_not (hasNextFace card), card)))
       (Some (\<lambda>event card. Update_face
          (case face (data card) of None \<Rightarrow> Some 0 | Some n \<Rightarrow> Some (n + 1))))
       None"

definition Controls_facePrevious :: "(card, 'e handler) control" where
  "Controls_facePrevious =
     Control (Plain (JStr ''CARD.FacePrevious'')) absent (Plain (JStr ''fas fa-caret-down''))
       (Some ''prev-face'')
       (Callable (\<lambda>card. (js_not (hasPreviousFace card), card)))
       (Some (\<lambda>event card. Update_face
          (case face (data card) of None \<Rightarrow> Some (- 1)
           | Some n \<Rightarrow> if n = 0 then None else Some (n - 1))))
       None"

definition Controls_faces :: "(card, 'e handler) control" where
  "Controls_faces =
     Control absent absent absent (Some ''card-faces'') absent None
       (Some [Controls_faceNext, Controls_facePrevious])"

definition Controls_default :: "(card, 'e handler) control list" where
  "Controls_default = [Controls_faces]"

definition Badges_suit :: "card badge" where
  "Badges_suit =
     \<lparr>tooltip_b = Plain (JStr ''CARD.Suit''),
      text_b = Callable (\<lambda>card. (suit (data card), card)),
      class_b = Some ''card-suit'', hide_b = absent\<rparr>"

definition Badges_value :: "card badge" where
  "Badges_value =
     \<lparr>tooltip_b = Plain (JStr ''CARD.Value''),
      text_b = Callable (\<lambda>card. (value_d (data card), card)),
      class_b = Some ''card-value'', hide_b = absent\<rparr>"

definition Badges_type :: "card badge" where
  "Badges_type =
     \<lparr>tooltip_b = Plain (JStr ''CARD.Type''),
      text_b = Callable (\<lambda>card. (type_d (data card), card)),
      class_b = Some ''card-type'', hide_b = absent\<rparr>"

definition Badges_default :: "card badge list" where
  "Badges_default = [Badges_suit, Badges_value, Badges_type]"

section \<open>Notions of the specification\<close>

text \<open>
  The specification's reading of the flattener, to be compared with \<open>controlReducer\<close>:
  the controls of a tree in document order (a control before its children, the children in
  their own order, at any depth), and the pair a single control contributes: its class and
  handler when it has both an onclick and a non-empty class, nothing otherwise.
\<close>

definition own_entry :: "('s, 'h) control \<Rightarrow> (string \<times> 'h) list" where
  "own_entry c =
     (case (onclick c, class_c c) of
        (Some h, Some k) \<Rightarrow> if k \<noteq> [] then [(k, h)] else []
      | _ \<Rightarrow> [])"

fun document_order :: "('s, 'h) control \<Rightarrow> ('s, 'h) control list" where
  "document_order (Control tt ar ic cl di oc cs) =
     Control tt ar ic cl di oc cs
       # (case cs of None \<Rightarrow> [] | Some l \<Rightarrow> concat (map document_order l))"

text \<open>
  A computed field is pure on a subject when calling it leaves that subject as it was; a
  control is pure when its four computed fields and all the controls below it are.
\<close>

fun pure_field :: "'s \<Rightarrow> 's field \<Rightarrow> bool" where
  "pure_field s (Plain v) = True"
| "pure_field s (Callable f) = (snd (f s) = s)"

fun pure_control :: "'s \<Rightarrow> ('s, 'h) control \<Rightarrow> bool" where
  "pure_control s (Control tt ar ic cl di oc cs) =
     (pure_field s tt \<and> pure_field s ar \<and> pure_field s ic \<and> pure_field s di
      \<and> (case cs of None \<Rightarrow> True | Some l \<Rightarrow> list_all (pure_control s) l))"

text \<open>A control tree with every onclick removed (the handlers may then have any type).\<close>

fun without_onclick :: "('s, 'h) control \<Rightarrow> ('s, 'g) control" where
  "without_onclick (Control tt ar ic cl di oc cs) =
     Control tt ar ic cl di None (map_option (map without_onclick) cs)"

section \<open>The attribute resolver: properties\<close>

text \<open>
  C2. For every subject: resolving a field that holds a plain value \<open>v\<close> (one that is not
  \<^verbatim>\<open>undefined\<close>) yields \<open>v\<close>; resolving a callable \<open>f\<close> yields what \<open>f\<close> yields on the subject;
  resolving an absent or undefined field yields the default. The constant functions leave
  the subject untouched.
\<close>

theorem functionOrString_resolves:
  assumes "v \<noteq> JUndefined"
  shows "functionOrString (Plain v) defaultValue subject = (v, subject)
    \<and> functionOrString (Callable f) defaultValue subject = f subject
    \<and> functionOrString absent defaultValue subject = (defaultValue, subject)"
  using assms by simp

theorem functionOrString_resolves_witness:
  "JStr ''T'' \<noteq> JUndefined
   \<and> functionOrString (Plain (JStr ''T'')) (JStr []) (7::nat) = (JStr ''T'', 7)
   \<and> functionOrString (Callable (\<lambda>n. (JNum (int n), Suc n))) (JStr []) (7::nat) = (JNum 7, 8)
   \<and> functionOrString absent (JBool False) (7::nat) = (JBool False, 7)"
proof -
  have ne: "JStr ''T'' \<noteq> JUndefined" by simp
  show ?thesis
    using functionOrString_resolves
      [OF ne, of "JStr []" "7::nat" "\<lambda>n. (JNum (int n), Suc n)"]
      functionOrString_resolves [OF ne, of "JBool False" "7::nat"]
    by simp
qed

section \<open>The control flattener: properties\<close>

lemma own_entry_Control:
  "own_entry (Control tt ar ic cl di oc cs) =
     (case (oc, cl) of
        (Some h, Some k) \<Rightarrow> if k \<noteq> [] then [(k, h)] else []
      | _ \<Rightarrow> [])"
  by (simp add: own_entry_def)

lemma foldl_controlReducer_aux:
  assumes "\<And>c acc. c \<in> set l \<Longrightarrow> controlReducer acc c = acc @ concat (map own_entry (document_order c))"
  shows "foldl controlReducer acc l = acc @ concat (map own_entry (concat (map document_order l)))"
  using assms by (induction l arbitrary: acc) simp_all

lemma controlReducer_document_order:
  "controlReducer acc c = acc @ concat (map own_entry (document_order c))"
proof (induction c arbitrary: acc)
  case (Control tt ar ic cl di oc cs)
  show ?case
  proof (cases cs)
    case None
    then show ?thesis by (simp add: own_entry_Control split: option.splits)
  next
    case (Some l)
    have "\<And>c acc. c \<in> set l \<Longrightarrow> controlReducer acc c = acc @ concat (map own_entry (document_order c))"
      using Control Some by simp
    then have "foldl controlReducer acc' l = acc' @ concat (map own_entry (concat (map document_order l)))" for acc'
      by (rule foldl_controlReducer_aux)
    then show ?thesis using Some by (simp add: own_entry_Control split: option.splits)
  qed
qed

lemma foldl_controlReducer:
  "foldl controlReducer acc cs = acc @ concat (map own_entry (concat (map document_order cs)))"
  by (rule foldl_controlReducer_aux) (rule controlReducer_document_order)

lemma fromEntries_map_of: "fromEntries es = map_of (rev es)"
proof -
  have "foldl (\<lambda>m (k, v). m(k \<mapsto> v)) m es = m ++ map_of (rev es)" for m :: "string \<rightharpoonup> 'a"
    by (induction es arbitrary: m) (auto simp: map_add_upd_left fun_eq_iff map_add_def split: option.splits)
  then show ?thesis by (simp add: fromEntries_def)
qed

lemma fromEntries_last:
  assumes "k \<notin> fst ` set later"
  shows "fromEntries (before @ (k, h) # later) k = Some h"
proof -
  have "map_of (rev later) k = None" using assms by (simp add: map_of_eq_None_iff)
  then show ?thesis by (simp add: fromEntries_map_of map_add_def)
qed

lemma dom_fromEntries: "dom (fromEntries es) = fst ` set es"
  by (simp add: fromEntries_map_of dom_map_of_conv_image_fst)

lemma own_entry_keys: "(k, h) \<in> set (own_entry c) \<Longrightarrow> k \<noteq> []"
  by (auto simp: own_entry_def split: option.splits if_splits)

text \<open>
  C1. Flattening is a left fold over the tree: the fold of \<open>controlReducer\<close> appends to its
  accumulator, for each control of the tree in document order (depth first, children in
  their own order, at any depth), the pair of its class and handler when it has both an
  onclick and a non-empty class; the dispatch mapping is built from that sequence. The
  list of a leaf \<open>a\<close> with handler \<open>h1\<close> and a group holding a leaf \<open>b\<close> with handler \<open>h2\<close>
  flattens to the mapping of exactly the two entries \<open>a\<close> to \<open>h1\<close> and \<open>b\<close> to \<open>h2\<close>.
\<close>

theorem controlFns_left_fold:
  "foldl controlReducer acc cs = acc @ concat (map own_entry (concat (map document_order cs)))
   \<and> controlFns cs = fromEntries (concat (map own_entry (concat (map document_order cs))))
   \<and> controlFns [Control absent absent absent (Some ''a'') absent (Some h1) None,
          Control absent absent absent (Some ''group'') absent None
            (Some [Control absent absent absent (Some ''b'') absent (Some h2) None])]
      = [''a'' \<mapsto> h1, ''b'' \<mapsto> h2]
   \<and> dom (controlFns [Control absent absent absent (Some ''a'') absent (Some h1) None,
          Control absent absent absent (Some ''group'') absent None
            (Some [Control absent absent absent (Some ''b'') absent (Some h2) None])])
      = {''a'', ''b''} \<and> card (dom (controlFns [Control absent absent absent (Some ''a'') absent (Some h1) None,
          Control absent absent absent (Some ''group'') absent None
            (Some [Control absent absent absent (Some ''b'') absent (Some h2) None])])) = 2"
proof (intro conjI)
  show "foldl controlReducer acc cs
      = acc @ concat (map own_entry (concat (map document_order cs)))"
    by (rule foldl_controlReducer)
  show "controlFns cs = fromEntries (concat (map own_entry (concat (map document_order cs))))"
    by (simp add: controlFns_def foldl_controlReducer)
  show "controlFns [Control absent absent absent (Some ''a'') absent (Some h1) None,
          Control absent absent absent (Some ''group'') absent None
            (Some [Control absent absent absent (Some ''b'') absent (Some h2) None])]
      = [''a'' \<mapsto> h1, ''b'' \<mapsto> h2]"
    by (simp add: controlFns_def fromEntries_def)
  show "dom (controlFns [Control absent absent absent (Some ''a'') absent (Some h1) None,
          Control absent absent absent (Some ''group'') absent None
            (Some [Control absent absent absent (Some ''b'') absent (Some h2) None])])
      = {''a'', ''b''}"
    by (auto simp: controlFns_def fromEntries_def)
  show "card (dom (controlFns [Control absent absent absent (Some ''a'') absent (Some h1) None,
          Control absent absent absent (Some ''group'') absent None
            (Some [Control absent absent absent (Some ''b'') absent (Some h2) None])])) = 2"
    by (simp add: controlFns_def fromEntries_def)
qed

text \<open>
  C5. When two controls of the tree share a class, the later one in traversal order wins:
  the mapping binds a class to the handler of the last entry of the flattened sequence
  with that class. Two leaves of class \<open>dup\<close> with handlers \<open>h1\<close> then \<open>h2\<close> give the
  mapping of \<open>dup\<close> to \<open>h2\<close>.
\<close>

theorem controlFns_later_wins:
  assumes "foldl controlReducer [] cs = before @ (k, h) # later" and "k \<notin> fst ` set later"
  shows "controlFns cs k = Some h
    \<and> controlFns [Control absent absent absent (Some ''dup'') absent (Some h1) None,
                  Control absent absent absent (Some ''dup'') absent (Some h2) None]
        = [''dup'' \<mapsto> h2]"
  using assms by (simp add: controlFns_def fromEntries_last) (simp add: fromEntries_def)

theorem controlFns_later_wins_witness:
  "foldl controlReducer []
      [Control absent absent absent (Some ''dup'') absent (Some (1::nat)) None,
       Control absent absent absent (Some ''dup'') absent (Some 2) None :: (unit, nat) control]
     = [(''dup'', 1)] @ (''dup'', 2) # []
   \<and> ''dup'' \<notin> fst ` set ([] :: (string \<times> nat) list)
   \<and> controlFns
      [Control absent absent absent (Some ''dup'') absent (Some (1::nat)) None,
       Control absent absent absent (Some ''dup'') absent (Some 2) None :: (unit, nat) control] ''dup''
     = Some 2"
proof -
  let ?cs = "[Control absent absent absent (Some ''dup'') absent (Some (1::nat)) None,
       Control absent absent absent (Some ''dup'') absent (Some 2) None :: (unit, nat) control]"
  have a: "foldl controlReducer [] ?cs = [(''dup'', 1)] @ (''dup'', 2) # []" by simp
  have b: "''dup'' \<notin> fst ` set ([] :: (string \<times> nat) list)" by simp
  from controlFns_later_wins [OF a b] have c: "controlFns ?cs ''dup'' = Some 2" by (rule conjunct1)
  from a b c show ?thesis by (intro conjI)
qed

text \<open>
  C6. A leaf control with an onclick whose class is absent or the empty string contributes
  nothing: the reducer returns its accumulator unchanged on it (a value, not an error), the
  flattened sequence of any tree is that of its controls other than this leaf, and the
  empty string is never a key of the dispatch mapping.
\<close>

theorem controlReducer_unclassed_leaf:
  assumes "onclick c = Some h" and "controls c = None"
    and "class_c c = None \<or> class_c c = Some []"
  shows "controlReducer acc c = acc
    \<and> foldl controlReducer acc cs
        = acc @ concat (map own_entry (filter (\<lambda>x. x \<noteq> c) (concat (map document_order cs))))
    \<and> [] \<notin> dom (controlFns cs)"
proof -
  have own: "own_entry c = []" using assms by (auto simp: own_entry_def)
  have "document_order c = [c]" using assms(2) by (cases c) simp
  then have 1: "controlReducer acc c = acc"
    using own by (simp add: controlReducer_document_order)
  have "concat (map own_entry (filter (\<lambda>x. x \<noteq> c) xs)) = concat (map own_entry xs)" for xs
    using own by (induction xs) simp_all
  then have 2: "foldl controlReducer acc cs
        = acc @ concat (map own_entry (filter (\<lambda>x. x \<noteq> c) (concat (map document_order cs))))"
    by (simp add: foldl_controlReducer)
  have 3: "[] \<notin> dom (controlFns cs)"
    by (auto simp: controlFns_def dom_fromEntries foldl_controlReducer dest: own_entry_keys)
  from 1 2 3 show ?thesis by simp
qed


theorem controlReducer_unclassed_leaf_witness:
  "onclick (Control absent absent absent None absent (Some (1::nat)) None :: (unit, nat) control) = Some 1
   \<and> controls (Control absent absent absent None absent (Some (1::nat)) None :: (unit, nat) control) = None
   \<and> class_c (Control absent absent absent None absent (Some (1::nat)) None :: (unit, nat) control) = None
   \<and> controlReducer [(''z'', 0)] (Control absent absent absent None absent (Some (1::nat)) None :: (unit, nat) control)
       = [(''z'', 0)]
   \<and> [] \<notin> dom (controlFns [Control absent absent absent None absent (Some (1::nat)) None :: (unit, nat) control])"
proof -
  let ?c = "Control absent absent absent None absent (Some (1::nat)) None :: (unit, nat) control"
  have a: "onclick ?c = Some 1" and b: "controls ?c = None" and c: "class_c ?c = None"
    by simp_all
  from c have d: "class_c ?c = None \<or> class_c ?c = Some []" by (rule disjI1)
  from controlReducer_unclassed_leaf [OF a b d, where acc = "[(''z'', 0)]" and cs = "[?c]"]
  have "controlReducer [(''z'', 0)] ?c = [(''z'', 0)]" and "[] \<notin> dom (controlFns [?c])"
    by blast+
  with a b c show ?thesis by (intro conjI)
qed

text \<open>
  C7, as the code has it. The claim that a group never contributes an entry of its own
  fails: the reducer tests onclick and class before it looks at the children, so a group
  carrying both is added like a leaf.
\<close>

theorem group_with_onclick_is_added:
  "controls (Control absent absent absent (Some ''g'') absent (Some (1::nat))
       (Some [Control absent absent absent (Some ''b'') absent (Some 2) None])
      :: (unit, nat) control)
     = Some [Control absent absent absent (Some ''b'') absent (Some 2) None]
   \<and> controlReducer []
       (Control absent absent absent (Some ''g'') absent (Some (1::nat))
         (Some [Control absent absent absent (Some ''b'') absent (Some 2) None])
        :: (unit, nat) control)
     = [(''g'', 1), (''b'', 2)]
   \<and> controlFns
       [Control absent absent absent (Some ''g'') absent (Some (1::nat))
         (Some [Control absent absent absent (Some ''b'') absent (Some 2) None])
        :: (unit, nat) control] ''g''
     = Some 1"
  by (simp add: controlFns_def fromEntries_def)

text \<open>
  C7, amended. A group contributes no entry of its own when it has no onclick, or no
  class, or the empty class: then only the entries of its children are folded into the
  accumulator. A group with both an onclick and a non-empty class contributes that pair,
  before the entries of its children.
\<close>

theorem controlReducer_group:
  assumes "controls c = Some l"
  shows "(onclick c = None \<or> class_c c = None \<or> class_c c = Some []
            \<longrightarrow> controlReducer acc c = foldl controlReducer acc l)
    \<and> (\<forall>h k. onclick c = Some h \<and> class_c c = Some k \<and> k \<noteq> []
            \<longrightarrow> controlReducer acc c = foldl controlReducer (acc @ [(k, h)]) l)"
  using assms by (cases c) (auto split: option.splits)

theorem controlReducer_group_witness:
  "controls (Controls_faces :: (card, unit handler) control)
     = Some [Controls_faceNext, Controls_facePrevious]
   \<and> onclick (Controls_faces :: (card, unit handler) control) = None
   \<and> controlReducer [] (Controls_faces :: (card, unit handler) control)
     = foldl controlReducer [] [Controls_faceNext, Controls_facePrevious]"
proof -
  let ?c = "Controls_faces :: (card, unit handler) control"
  have a: "controls ?c = Some [Controls_faceNext, Controls_facePrevious]"
    and b: "onclick ?c = None"
    by (simp_all add: Controls_faces_def)
  from controlReducer_group [OF a, of "[]"] b
  have "controlReducer [] ?c = foldl controlReducer [] [Controls_faceNext, Controls_facePrevious]"
    by blast
  with a b show ?thesis by (intro conjI)
qed

section \<open>The descriptor applier: properties\<close>

lemma without_onclick_apply:
  fixes l :: "('s, 'h) control list" and c :: "('s, 'h) control"
  shows "applyCardControls s (map without_onclick l :: ('s, 'g) control list) = applyCardControls s l"
    and "applyCardControl s (without_onclick c :: ('s, 'g) control) = applyCardControl s c"
proof (induction s l and s c rule: applyCardControls_applyCardControl.induct)
  case (1 card0)
  show ?case by simp
next
  case (2 card0 control rest)
  then show ?case by (simp split: prod.splits)
next
  case (3 card0 tt ar ic cl di oc cs)
  show ?case
  proof (cases cs)
    case None
    then show ?thesis by simp
  next
    case (Some l)
    obtain t s1 where t: "functionOrString tt (JStr []) card0 = (t, s1)" by force
    obtain a s2 where a: "functionOrString ar (JStr []) s1 = (a, s2)" by force
    obtain i s3 where i: "functionOrString ic (JStr []) s2 = (i, s3)" by force
    obtain d s4 where d: "functionOrString di (JBool False) s3 = (d, s4)" by force
    from "3.IH" [OF t [symmetric] a [symmetric] i [symmetric] d [symmetric] Some]
    have "applyCardControls s4 (map without_onclick l :: ('s, 'g) control list)
        = applyCardControls s4 l" .
    then show ?thesis using t a i d Some by simp
  qed
qed

text \<open>
  C3. For every subject and control descriptor, \<open>applyCardControl\<close> returns the record of
  tooltip, aria and icon (each resolved, with default the empty string), class (the
  descriptor's class, or the empty string), disabled (resolved, with default false) and
  controls (the children applied in turn, or the empty list when the descriptor has no
  controls). The fields are resolved in that order, each on the subject as the call before
  left it. The record type has no onclick, and the result is the same when every onclick of
  the descriptor is removed. \<open>applyCardControls\<close> applies the controls one after another.
\<close>

theorem applyCardControl_resolved_record:
  "applyCardControl s c =
     (let t = functionOrString (tooltip c) (JStr []) s;
          a = functionOrString (aria c) (JStr []) (snd t);
          i = functionOrString (icon c) (JStr []) (snd a);
          d = functionOrString (disabled c) (JBool False) (snd i);
          k = (case controls c of None \<Rightarrow> ([], snd d)
               | Some l \<Rightarrow> applyCardControls (snd d) l)
      in (ResolvedControl (fst t) (fst a) (fst i)
            (case class_c c of None \<Rightarrow> [] | Some x \<Rightarrow> x) (fst d) (fst k), snd k))
   \<and> applyCardControl s (without_onclick c :: ('s, 'g) control) = applyCardControl s c
   \<and> fst (applyCardControls s cs)
       = map (\<lambda>n. fst (applyCardControl (snd (applyCardControls s (take n cs))) (cs ! n)))
           [0..<length cs]"
proof (intro conjI)
  show "applyCardControl s c =
     (let t = functionOrString (tooltip c) (JStr []) s;
          a = functionOrString (aria c) (JStr []) (snd t);
          i = functionOrString (icon c) (JStr []) (snd a);
          d = functionOrString (disabled c) (JBool False) (snd i);
          k = (case controls c of None \<Rightarrow> ([], snd d)
               | Some l \<Rightarrow> applyCardControls (snd d) l)
      in (ResolvedControl (fst t) (fst a) (fst i)
            (case class_c c of None \<Rightarrow> [] | Some x \<Rightarrow> x) (fst d) (fst k), snd k))"
    by (cases c) (simp add: Let_def case_prod_beta split: option.splits)
  show "applyCardControl s (without_onclick c :: ('s, 'g) control) = applyCardControl s c"
    by (rule without_onclick_apply)
  show "fst (applyCardControls s cs)
       = map (\<lambda>n. fst (applyCardControl (snd (applyCardControls s (take n cs))) (cs ! n)))
           [0..<length cs]"
  proof (induction cs arbitrary: s)
    case Nil
    show ?case by simp
  next
    case (Cons c cs)
    have "[0..<length (c # cs)] = 0 # map Suc [0..<length cs]"
      by (simp add: upt_conv_Cons map_Suc_upt del: upt_Suc)
    then show ?case using Cons [of "snd (applyCardControl s c)"]
      by (simp add: case_prod_beta comp_def del: upt_Suc)
  qed
qed


text \<open>
  C4. For every subject and badge list, \<open>applyCardBadges\<close> maps each badge, in order, to
  the record of tooltip and text (resolved), hide (resolved, with default false) and class
  (the badge's class, or the empty string). The badge with tooltip \<open>T\<close>, text the name of
  the card and class \<open>x\<close>, applied to a card named \<open>Ace\<close>, yields tooltip \<open>T\<close>, text
  \<open>Ace\<close>, hide false and class \<open>x\<close>.
\<close>

theorem applyCardBadges_resolved_records:
  "fst (applyCardBadges s bs)
     = map (\<lambda>n. fst (applyCardBadge (snd (applyCardBadges s (take n bs))) (bs ! n)))
         [0..<length bs]
   \<and> applyCardBadge s b =
     (let t = functionOrString (tooltip_b b) (JStr []) s;
          x = functionOrString (text_b b) (JStr []) (snd t);
          h = functionOrString (hide_b b) (JBool False) (snd x)
      in (\<lparr>tooltip_rb = fst t, text_rb = fst x, hide_rb = fst h,
           class_rb = (case class_b b of None \<Rightarrow> [] | Some c \<Rightarrow> c)\<rparr>, snd h))
   \<and> applyCardBadges (ace\<lparr>name := JStr ''Ace''\<rparr>)
       [\<lparr>tooltip_b = Plain (JStr ''T''), text_b = Callable (\<lambda>c. (name c, c)),
         class_b = Some ''x'', hide_b = absent\<rparr>]
     = ([\<lparr>tooltip_rb = JStr ''T'', text_rb = JStr ''Ace'', hide_rb = JBool False,
          class_rb = ''x''\<rparr>], ace\<lparr>name := JStr ''Ace''\<rparr>)"
proof (intro conjI)
  show "fst (applyCardBadges s bs)
     = map (\<lambda>n. fst (applyCardBadge (snd (applyCardBadges s (take n bs))) (bs ! n)))
         [0..<length bs]"
  proof (induction bs arbitrary: s)
    case Nil
    show ?case by simp
  next
    case (Cons b bs)
    have "[0..<length (b # bs)] = 0 # map Suc [0..<length bs]"
      by (simp add: upt_conv_Cons map_Suc_upt del: upt_Suc)
    then show ?case using Cons [of "snd (applyCardBadge s b)"]
      by (simp add: case_prod_beta comp_def del: upt_Suc)
  qed
  show "applyCardBadge s b =
     (let t = functionOrString (tooltip_b b) (JStr []) s;
          x = functionOrString (text_b b) (JStr []) (snd t);
          h = functionOrString (hide_b b) (JBool False) (snd x)
      in (\<lparr>tooltip_rb = fst t, text_rb = fst x, hide_rb = fst h,
           class_rb = (case class_b b of None \<Rightarrow> [] | Some c \<Rightarrow> c)\<rparr>, snd h))"
    by (cases "class_b b") (simp_all add: applyCardBadge_def Let_def case_prod_beta)
  show "applyCardBadges (ace\<lparr>name := JStr ''Ace''\<rparr>)
       [\<lparr>tooltip_b = Plain (JStr ''T''), text_b = Callable (\<lambda>c. (name c, c)),
         class_b = Some ''x'', hide_b = absent\<rparr>]
     = ([\<lparr>tooltip_rb = JStr ''T'', text_rb = JStr ''Ace'', hide_rb = JBool False,
          class_rb = ''x''\<rparr>], ace\<lparr>name := JStr ''Ace''\<rparr>)"
    by (simp add: applyCardBadge_def)
qed

text \<open>
  C8. The default control list, applied to a card with \<open>hasNextFace\<close> false and
  \<open>hasPreviousFace\<close> true, yields the face-navigation group whose \<open>next-face\<close> leaf is
  disabled and whose \<open>prev-face\<close> leaf is not; for the getter of the mixin and for
  \<open>Controls.default\<close> of the catalogue alike.
\<close>

theorem default_controls_face_navigation:
  "fst (applyCardControls (c\<lparr>hasNextFace := JBool False, hasPreviousFace := JBool True\<rparr>)
         (mixin_controls :: (card, 'e handler) control list))
     = [ResolvedControl (JStr []) (JStr []) (JStr []) ''card-faces'' (JBool False)
          [ResolvedControl (JStr ''CARD.FaceNext'') (JStr []) (JStr ''fas fa-caret-up'')
             ''next-face'' (JBool True) [],
           ResolvedControl (JStr ''CARD.FacePrevious'') (JStr []) (JStr ''fas fa-caret-down'')
             ''prev-face'' (JBool False) []]]
   \<and> fst (applyCardControls (c\<lparr>hasNextFace := JBool False, hasPreviousFace := JBool True\<rparr>)
         (Controls_default :: (card, 'e handler) control list))
     = [ResolvedControl (JStr []) (JStr []) (JStr []) ''card-faces'' (JBool False)
          [ResolvedControl (JStr ''CARD.FaceNext'') (JStr []) (JStr ''fas fa-caret-up'')
             ''next-face'' (JBool True) [],
           ResolvedControl (JStr ''CARD.FacePrevious'') (JStr []) (JStr ''fas fa-caret-down'')
             ''prev-face'' (JBool False) []]]"
  by (simp add: mixin_controls_def Controls_default_def Controls_faces_def
      Controls_faceNext_def Controls_facePrevious_def js_not_def)

lemma pure_field_collapse:
  "pure_field s f \<Longrightarrow> functionOrString f d s = (fst (functionOrString f d s), s)"
  by (cases f) (simp_all add: prod_eq_iff)

lemma pure_field_run:
  assumes "pure_field s f"
  obtains v where "functionOrString f d s = (v, s)"
  by (rule that [OF pure_field_collapse [OF assms]])

lemma pure_snd:
  fixes l :: "('s, 'h) control list" and c :: "('s, 'h) control"
  shows "list_all (pure_control s) l \<Longrightarrow> snd (applyCardControls s l) = s"
    and "pure_control s c \<Longrightarrow> snd (applyCardControl s c) = s"
proof (induction s l and s c rule: applyCardControls_applyCardControl.induct)
  case (1 card0)
  then show ?case by simp
next
  case (2 card0 control rest)
  then show ?case by (auto split: prod.splits)
next
  case (3 card0 tt ar ic cl di oc cs)
  from "3.prems" have p: "pure_field card0 tt" "pure_field card0 ar"
      "pure_field card0 ic" "pure_field card0 di"
    and below: "case cs of None \<Rightarrow> True | Some l \<Rightarrow> list_all (pure_control card0) l"
    by simp_all
  obtain t where t: "functionOrString tt (JStr []) card0 = (t, card0)"
    using p(1) by (rule pure_field_run)
  obtain a where a: "functionOrString ar (JStr []) card0 = (a, card0)"
    using p(2) by (rule pure_field_run)
  obtain i where i: "functionOrString ic (JStr []) card0 = (i, card0)"
    using p(3) by (rule pure_field_run)
  obtain d where d: "functionOrString di (JBool False) card0 = (d, card0)"
    using p(4) by (rule pure_field_run)
  show ?case
  proof (cases cs)
    case None
    then show ?thesis using t a i d by simp
  next
    case (Some l)
    with below have "list_all (pure_control card0) l" by simp
    with "3.IH" [OF t [symmetric] a [symmetric] i [symmetric] d [symmetric] Some]
    have "snd (applyCardControls card0 l) = card0" .
    then show ?thesis using t a i d Some by (simp add: case_prod_beta)
  qed
qed

text \<open>
  C9. When the computed fields of a control list are pure on the subject,
  \<open>applyCardControls\<close> leaves the subject as it was, and a second call, made on the subject
  the first call left, returns the same result as the first.
\<close>

theorem applyCardControls_idempotent:
  assumes "list_all (pure_control s) l"
  shows "snd (applyCardControls s l) = s
    \<and> applyCardControls (snd (applyCardControls s l)) l = applyCardControls s l"
  using assms by (simp add: pure_snd)

theorem applyCardControls_idempotent_witness:
  "list_all
     (pure_control \<lparr>name = JStr ''Ace'', hasNextFace = JBool False, hasPreviousFace = JBool True,
        data = \<lparr>suit = JStr ''spades'', value_d = JNum 1, type_d = JStr ''base'', face = Some 0\<rparr>\<rparr>)
     (mixin_controls :: (card, unit handler) control list)
   \<and> snd (applyCardControls
        \<lparr>name = JStr ''Ace'', hasNextFace = JBool False, hasPreviousFace = JBool True,
          data = \<lparr>suit = JStr ''spades'', value_d = JNum 1, type_d = JStr ''base'', face = Some 0\<rparr>\<rparr>
        (mixin_controls :: (card, unit handler) control list))
     = \<lparr>name = JStr ''Ace'', hasNextFace = JBool False, hasPreviousFace = JBool True,
        data = \<lparr>suit = JStr ''spades'', value_d = JNum 1, type_d = JStr ''base'', face = Some 0\<rparr>\<rparr>
   \<and> applyCardControls
       (snd (applyCardControls
          \<lparr>name = JStr ''Ace'', hasNextFace = JBool False, hasPreviousFace = JBool True,
            data = \<lparr>suit = JStr ''spades'', value_d = JNum 1, type_d = JStr ''base'', face = Some 0\<rparr>\<rparr>
          (mixin_controls :: (card, unit handler) control list)))
       (mixin_controls :: (card, unit handler) control list)
     = applyCardControls
         \<lparr>name = JStr ''Ace'', hasNextFace = JBool False, hasPreviousFace = JBool True,
           data = \<lparr>suit = JStr ''spades'', value_d = JNum 1, type_d = JStr ''base'', face = Some 0\<rparr>\<rparr>
         (mixin_controls :: (card, unit handler) control list)"
proof -
  let ?s = "\<lparr>name = JStr ''Ace'', hasNextFace = JBool False, hasPreviousFace = JBool True,
        data = \<lparr>suit = JStr ''spades'', value_d = JNum 1, type_d = JStr ''base'', face = Some 0\<rparr>\<rparr>"
  have p: "list_all (pure_control ?s) (mixin_controls :: (card, unit handler) control list)"
    by (simp add: mixin_controls_def)
  note twice = applyCardControls_idempotent [OF p]
  show ?thesis
    by (intro conjI) (rule p, rule conjunct1 [OF twice], rule conjunct2 [OF twice])
qed

text \<open>
  Purity is needed: a computed field that changes the subject makes the second call differ
  from the first.
\<close>

lemma impure_field_changes_result:
  "applyCardControls (0::nat)
      [Control (Callable (\<lambda>n. (JNum (int n), Suc n))) absent absent None absent
         (None :: unit option) None]
    = ([ResolvedControl (JNum 0) (JStr []) (JStr []) [] (JBool False) []], 1)
   \<and> applyCardControls (1::nat)
      [Control (Callable (\<lambda>n. (JNum (int n), Suc n))) absent absent None absent
         (None :: unit option) None]
    = ([ResolvedControl (JNum 1) (JStr []) (JStr []) [] (JBool False) []], 2)"
  by simp


section \<open>The default descriptors: properties\<close>

text \<open>
  C10. The default getters of the mixin duplicate the catalogue: its control list equals
  \<open>Controls.default\<close> and its badge list equals \<open>Badges.default\<close> (suit, value, type, in
  that order), as descriptor sequences, handlers included; so both resolve to the same
  result on every subject.
\<close>

theorem mixin_defaults_duplicate_library:
  "(mixin_controls :: (card, 'e handler) control list) = Controls_default
   \<and> mixin_badges = Badges_default
   \<and> applyCardControls s (mixin_controls :: (card, 'e handler) control list)
       = applyCardControls s (Controls_default :: (card, 'e handler) control list)
   \<and> applyCardBadges s mixin_badges = applyCardBadges s Badges_default
   \<and> map class_b mixin_badges = [Some ''card-suit'', Some ''card-value'', Some ''card-type'']
   \<and> map class_b Badges_default = [Some ''card-suit'', Some ''card-value'', Some ''card-type'']"
proof -
  have c: "(mixin_controls :: (card, 'e handler) control list) = Controls_default"
    by (simp add: mixin_controls_def Controls_default_def Controls_faces_def
        Controls_faceNext_def Controls_facePrevious_def)
  have b: "mixin_badges = Badges_default"
    by (simp add: mixin_badges_def Badges_default_def Badges_suit_def Badges_value_def
        Badges_type_def)
  have m: "map class_b mixin_badges = [Some ''card-suit'', Some ''card-value'', Some ''card-type'']"
    by (simp add: mixin_badges_def)
  from c b m show ?thesis by simp
qed


end
